theory Spec2Isabelle
  imports Main
begin

section \<open>The dictation controller of \<open>src/main.py\<close>\<close>

text \<open>
  \<open>WhisperDictationApp\<close> is one object shared by several threads: the keyboard listener
  (\<open>on_press\<close>, \<open>on_release\<close>), the menu and signal handlers, one capture worker per
  recording (\<open>record_audio\<close>), one transcription worker per stop (\<open>process_recording\<close>)
  and the model loader (\<open>load_model\<close>). The object's attributes and the parts of the
  operating system the code touches (microphone, temporary files, clipboard, the focused
  document) are the fields of one record. The program has no lock, so the threads
  interleave: the loader and every capture worker advance by single steps, a transcription
  worker runs as one step, and a handler runs up to the point where it blocks, the
  \<open>join\<close> in \<open>stop_recording\<close>, and goes on in a later step, once the worker it waits
  for has ended. The listener thread and the main thread (menu, signals) each run one
  handler at a time. \<open>print\<close> calls are left out.
\<close>

subsection \<open>Data\<close>

type_synonym bytes = string

text \<open>
  A key event of \<open>pynput\<close> is either a \<open>KeyCode\<close>, which has the attribute \<open>vk\<close>
  (possibly \<open>None\<close>), or a member of the enumeration \<open>Key\<close>, which has no such attribute
  and is the only kind of value equal to a member of
  \<open>[Key.f12, Key.f13, Key.f17, Key.f18, Key.cmd, Key.space]\<close>.
\<close>

datatype special = Key_f12 | Key_f13 | Key_f17 | Key_f18 | Key_cmd | Key_space
  | Key_shift | Key_esc | Key_enter

datatype key = KeyCode "int option" | Key special

datatype exn = FileExistsError | OSError | AttributeError | FileNotFoundError
  | EngineError string

text \<open>A file is raw bytes, or a wave container with its channel count, sample width,
  frame rate and sample data.\<close>

datatype content = RawFile bytes | WavFile nat nat nat bytes

text \<open>The loaded model: what \<open>model.transcribe\<close> followed by the iteration over its
  segments yields on a file, the texts of the segments or an exception.\<close>

type_synonym engine = "content \<Rightarrow> exn + string list"

text \<open>The menu-bar title: \<open>T_plain\<close> is the bare microphone sign, the others carry the
  suffixes \<open>(Loading...)\<close>, \<open>(Error)\<close>, \<open>(Recording)\<close> and \<open>(Transcribing)\<close>.\<close>

datatype title = T_plain | T_loading | T_error | T_recording | T_transcribing

text \<open>
  Where a capture worker stands in \<open>record_audio\<close>: before \<open>self.audio.open\<close>
  (\<open>CapStart\<close>), at the test of \<open>while self.recording\<close> (\<open>CapLoop\<close>), past the test, in
  \<open>stream.read\<close> and \<open>self.frames.append\<close> (\<open>CapRead\<close>), returned after \<open>stream.close()\<close>
  (\<open>CapDone\<close>), or dead because \<open>self.audio.open\<close> raised (\<open>CapFailed\<close>).
\<close>

datatype cap_pc = CapStart | CapLoop | CapRead | CapDone | CapFailed

text \<open>What the program does to its surroundings, in the order it does it.\<close>

datatype effect = StreamOpen | StreamClose
  | SpawnCapture | SpawnTranscribe
  | TempCreate string | WavWrite string | EngineCall string "content option" | Unlink string
  | Pbcopy string | Terminate | Quit

datatype kbkey = KCmd | KChar char

text \<open>The two threads that run handlers, and what a handler has left to do when the
  \<open>join\<close> inside \<open>stop_recording\<close> returns: after the rest of \<open>stop_recording\<close>, nothing
  more (\<open>Ret\<close>), the last \<open>if\<close> of \<open>on_release\<close> for the key released
  (\<open>ReleaseTail\<close>), or the last statements of \<open>handle_shutdown\<close> (\<open>ShutdownTail\<close>).
  A thread inside the \<open>join\<close> waits for the capture worker with the given index, or for
  none when the attribute \<open>recording_thread\<close> does not exist.\<close>

datatype tid = Listener | MainThread

datatype cont = Ret | ReleaseTail key | ShutdownTail

datatype wait = Join "nat option" cont

text \<open>Where the loader thread stands in \<open>load_model\<close>: not yet run, inside the \<open>try\<close>,
  returned.\<close>

datatype load_pc = LoadStart | LoadTry | LoadDone

record app =
  recording :: bool
  frames :: "bytes list"
  model :: "engine option"
  is_recording_with_key63 :: bool
  title :: title
  status_title :: string
  capture :: "cap_pc list"
  workers :: nat
  waiting :: "tid \<Rightarrow> wait option"
  loader :: load_pc
  audio_live :: bool
  quit :: bool
  device_ok :: bool
  disk_ok :: bool
  mic :: "nat \<Rightarrow> bytes"
  mic_pos :: nat
  files :: "string \<rightharpoonup> content"
  tmp_names :: "string list"
  clipboard :: string
  document :: string
  cmd_down :: bool
  trace :: "effect list"

text \<open>
  \<open>capture\<close> holds the capture workers ever started, the oldest first: its last element
  is \<open>self.recording_thread\<close>, and the attribute is missing while the list is empty.
  \<open>workers\<close> counts the transcription workers started and not yet finished.
  \<open>waiting\<close> says which handler threads are inside a \<open>join\<close>.
  The remaining fields are the surroundings: whether the input device can be opened
  (\<open>device_ok\<close>), whether writing a file succeeds (\<open>disk_ok\<close>), the chunks the microphone
  will deliver (\<open>mic\<close>, read at \<open>mic_pos\<close>), the file system, the names the temporary-file
  library will try, the clipboard, the text of the focused application, the state of the
  command key, and the trace of effects.
\<close>

definition trigger_key :: int where
  "trigger_key = 63"

definition channels :: nat where
  "channels = 1"

definition rate :: nat where
  "rate = 16000"

text \<open>\<open>self.audio.get_sample_size(pyaudio.paInt16)\<close>\<close>

definition sample_size :: nat where
  "sample_size = 2"

text \<open>The state \<open>__init__\<close> leaves, for given surroundings: the loader is started and has
  not run, \<open>monitor_keys\<close> has set \<open>is_recording_with_key63\<close> to \<open>False\<close>.\<close>

definition init :: "bool \<Rightarrow> bool \<Rightarrow> (nat \<Rightarrow> bytes) \<Rightarrow> string list \<Rightarrow> app" where
  "init dev disk m names =
     \<lparr> recording = False, frames = [], model = None, is_recording_with_key63 = False,
       title = T_plain, status_title = ''Status: Ready'', capture = [], workers = 0,
       waiting = (\<lambda>t. None), loader = LoadStart, audio_live = True, quit = False,
       device_ok = dev, disk_ok = disk, mic = m, mic_pos = 0,
       files = Map.empty, tmp_names = names,
       clipboard = [], document = [], cmd_down = False, trace = [] \<rparr>"

subsection \<open>The model loader\<close>

text \<open>The two assignments before the \<open>try\<close>.\<close>

definition load_model_start :: "app \<Rightarrow> app" where
  "load_model_start s =
     s\<lparr>title := T_loading, status_title := ''Status: Loading Whisper model...'',
       loader := LoadTry\<rparr>"

text \<open>The \<open>try\<close> statement, for what the construction of the model yields.\<close>

definition load_model_try :: "exn + engine \<Rightarrow> app \<Rightarrow> app" where
  "load_model_try outcome s =
     (case outcome of
        Inr eng \<Rightarrow> s\<lparr>model := Some eng, title := T_plain, status_title := ''Status: Ready'',
                     loader := LoadDone\<rparr>
      | Inl e \<Rightarrow> s\<lparr>title := T_error, status_title := ''Status: Error loading model'',
                   loader := LoadDone\<rparr>)"

definition load_model :: "exn + engine \<Rightarrow> app \<Rightarrow> app" where
  "load_model outcome s = load_model_try outcome (load_model_start s)"

subsection \<open>The capture worker\<close>

definition cap_finished :: "cap_pc \<Rightarrow> bool" where
  "cap_finished pc = (case pc of CapDone \<Rightarrow> True | CapFailed \<Rightarrow> True | _ \<Rightarrow> False)"

text \<open>One step of the capture worker with index \<open>i\<close> in \<open>record_audio\<close>.\<close>

definition record_audio_step :: "nat \<Rightarrow> app \<Rightarrow> app" where
  "record_audio_step i s =
     (if i < length (capture s) then
        (case capture s ! i of
           CapStart \<Rightarrow>
             if audio_live s \<and> device_ok s
             then s\<lparr>capture := (capture s)[i := CapLoop], trace := trace s @ [StreamOpen]\<rparr>
             else s\<lparr>capture := (capture s)[i := CapFailed]\<rparr>
         | CapLoop \<Rightarrow>
             if recording s
             then s\<lparr>capture := (capture s)[i := CapRead]\<rparr>
             else s\<lparr>capture := (capture s)[i := CapDone], trace := trace s @ [StreamClose]\<rparr>
         | CapRead \<Rightarrow>
             s\<lparr>frames := frames s @ [mic s (mic_pos s)], mic_pos := Suc (mic_pos s),
               capture := (capture s)[i := CapLoop]\<rparr>
         | CapDone \<Rightarrow> s
         | CapFailed \<Rightarrow> s)
      else s)"

text \<open>The capture worker \<open>i\<close> exists and has ended; a \<open>join\<close> on the given target
  returns.\<close>

definition ended :: "nat \<Rightarrow> app \<Rightarrow> bool" where
  "ended i s = (i < length (capture s) \<and> cap_finished (capture s ! i))"

definition joined :: "nat option \<Rightarrow> app \<Rightarrow> bool" where
  "joined tg s = (case tg of None \<Rightarrow> True | Some i \<Rightarrow> ended i s)"

subsection \<open>Starting and stopping\<close>

definition start_recording :: "app \<Rightarrow> app" where
  "start_recording s =
     (case model s of
        None \<Rightarrow> s\<lparr>status_title := ''Status: Waiting for model to load''\<rparr>
      | Some _ \<Rightarrow>
          s\<lparr>frames := [], recording := True, title := T_recording,
            status_title := ''Status: Recording...'',
            capture := capture s @ [CapStart], trace := trace s @ [SpawnCapture]\<rparr>)"

text \<open>\<open>stop_recording\<close>, called by a handler on thread \<open>t\<close> that has \<open>k\<close> left to do
  afterwards, up to its \<open>join\<close>: the flag is cleared and the thread waits for the newest
  capture worker.\<close>

definition stop_recording :: "tid \<Rightarrow> cont \<Rightarrow> app \<Rightarrow> app" where
  "stop_recording t k s =
     s\<lparr>recording := False,
       waiting := (waiting s)
         (t \<mapsto> Join (if capture s = [] then None else Some (length (capture s) - 1)) k)\<rparr>"

text \<open>The rest of \<open>stop_recording\<close>, after the \<open>join\<close>: the title, the status and the
  start of the transcription worker.\<close>

definition stop_recording_return :: "app \<Rightarrow> app" where
  "stop_recording_return s =
     s\<lparr>title := T_transcribing, status_title := ''Status: Transcribing...'',
       workers := Suc (workers s), trace := trace s @ [SpawnTranscribe]\<rparr>"

subsection \<open>The keyboard listener and the menu\<close>

definition in_special_list :: "key \<Rightarrow> bool" where
  "in_special_list k =
     (case k of
        KeyCode _ \<Rightarrow> False
      | Key sp \<Rightarrow> (case sp of Key_f12 \<Rightarrow> True | Key_f13 \<Rightarrow> True | Key_f17 \<Rightarrow> True
                    | Key_f18 \<Rightarrow> True | Key_cmd \<Rightarrow> True | Key_space \<Rightarrow> True | _ \<Rightarrow> False))"

definition on_press :: "key \<Rightarrow> app \<Rightarrow> app" where
  "on_press k s =
     (let s1 = (case k of
                  KeyCode v \<Rightarrow>
                    if v \<noteq> Some trigger_key \<and> \<not> recording s
                    then (if v = Some 49 \<or> v = Some 55 then start_recording s else s)
                    else s
                | Key _ \<Rightarrow> s)
      in if in_special_list k \<and> \<not> recording s1 then start_recording s1 else s1)"

text \<open>The last \<open>if\<close> of \<open>on_release\<close>.\<close>

definition release_tail :: "key \<Rightarrow> app \<Rightarrow> app" where
  "release_tail k s =
     (if in_special_list k \<and> recording s then stop_recording Listener Ret s else s)"

definition on_release :: "key \<Rightarrow> app \<Rightarrow> app" where
  "on_release k s =
     (case k of
        KeyCode v \<Rightarrow>
          if v = Some trigger_key then
            (if \<not> recording s \<and> \<not> is_recording_with_key63 s
             then release_tail k (start_recording (s\<lparr>is_recording_with_key63 := True\<rparr>))
             else if recording s \<and> is_recording_with_key63 s
             then stop_recording Listener (ReleaseTail k) (s\<lparr>is_recording_with_key63 := False\<rparr>)
             else release_tail k s)
          else if recording s then
            (if v = Some 49 \<or> v = Some 55
             then stop_recording Listener (ReleaseTail k) s
             else release_tail k s)
          else release_tail k s
      | Key _ \<Rightarrow> release_tail k s)"

definition start_recording_menu :: "app \<Rightarrow> app" where
  "start_recording_menu s = (if \<not> recording s then start_recording s else s)"

definition stop_recording_menu :: "app \<Rightarrow> app" where
  "stop_recording_menu s = (if recording s then stop_recording MainThread Ret s else s)"

subsection \<open>Pasting\<close>

definition kb_press :: "kbkey \<Rightarrow> app \<Rightarrow> app" where
  "kb_press k s =
     (case k of
        KCmd \<Rightarrow> s\<lparr>cmd_down := True\<rparr>
      | KChar c \<Rightarrow>
          if cmd_down s
          then (if c = CHR ''v'' then s\<lparr>document := document s @ clipboard s\<rparr> else s)
          else s\<lparr>document := document s @ [c]\<rparr>)"

definition kb_release :: "kbkey \<Rightarrow> app \<Rightarrow> app" where
  "kb_release k s = (case k of KCmd \<Rightarrow> s\<lparr>cmd_down := False\<rparr> | KChar _ \<Rightarrow> s)"

definition pbcopy :: "string \<Rightarrow> app \<Rightarrow> app" where
  "pbcopy text s = s\<lparr>clipboard := text, trace := trace s @ [Pbcopy text]\<rparr>"

definition insert_text :: "string \<Rightarrow> app \<Rightarrow> app" where
  "insert_text text s =
     kb_release KCmd (kb_release (KChar CHR ''v'')
       (kb_press (KChar CHR ''v'') (kb_press KCmd (pbcopy text s))))"

subsection \<open>The transcription worker\<close>

text \<open>\<open>tempfile.NamedTemporaryFile(suffix=".wav", delete=False)\<close> tries candidate names
  until one does not exist, creates that file empty, and raises when it runs out of
  candidates.\<close>

fun mkstemp :: "(string \<rightharpoonup> content) \<Rightarrow> string list \<Rightarrow> (string \<times> string list) option" where
  "mkstemp fs [] = None"
| "mkstemp fs (c # cs) =
     (let n = ''/tmp/tmp'' @ c @ ''.wav''
      in case fs n of None \<Rightarrow> Some (n, cs) | Some _ \<Rightarrow> mkstemp fs cs)"

definition NamedTemporaryFile :: "app \<Rightarrow> exn + (string \<times> app)" where
  "NamedTemporaryFile s =
     (case mkstemp (files s) (tmp_names s) of
        None \<Rightarrow> Inl FileExistsError
      | Some (n, rest) \<Rightarrow>
          Inr (n, s\<lparr>files := (files s)(n \<mapsto> RawFile []), tmp_names := rest,
                    trace := trace s @ [TempCreate n]\<rparr>))"

text \<open>The \<open>with wave.open(temp_filename, 'wb')\<close> block: the first component is the
  exception raised, if any.\<close>

definition wave_write :: "string \<Rightarrow> app \<Rightarrow> exn option \<times> app" where
  "wave_write n s =
     (if disk_ok s
      then (None, s\<lparr>files := (files s)(n \<mapsto> WavFile channels sample_size rate (concat (frames s))),
                     trace := trace s @ [WavWrite n]\<rparr>)
      else (Some OSError, s))"

text \<open>\<open>self.model.transcribe(temp_filename, beam_size=5)\<close> and the loop over the
  segments.\<close>

definition model_transcribe :: "string \<Rightarrow> app \<Rightarrow> (exn + string list) \<times> app" where
  "model_transcribe n s =
     (case model s of
        None \<Rightarrow> (Inl AttributeError, s)
      | Some eng \<Rightarrow>
          (case files s n of None \<Rightarrow> Inl FileNotFoundError | Some f \<Rightarrow> eng f,
           s\<lparr>trace := trace s @ [EngineCall n (files s n)]\<rparr>))"

definition os_unlink :: "string \<Rightarrow> app \<Rightarrow> app" where
  "os_unlink n s = s\<lparr>files := (files s)(n := None), trace := trace s @ [Unlink n]\<rparr>"

text \<open>The \<open>try\<close> block of \<open>transcribe_audio\<close> with its \<open>except\<close> clause, which sets the
  status and raises again.\<close>

definition transcribe_try :: "string \<Rightarrow> app \<Rightarrow> exn option \<times> app" where
  "transcribe_try n s =
     (case model_transcribe n s of
        (Inl e, s1) \<Rightarrow> (Some e, s1\<lparr>status_title := ''Status: Transcription error''\<rparr>)
      | (Inr segments, s1) \<Rightarrow>
          (let text = concat segments
           in if text \<noteq> []
              then (None, (insert_text text s1)
                            \<lparr>status_title := ''Status: Transcribed: '' @ take 30 text @ ''...''\<rparr>)
              else (None, s1\<lparr>status_title := ''Status: No speech detected''\<rparr>)))"

definition transcribe_audio :: "app \<Rightarrow> exn option \<times> app" where
  "transcribe_audio s =
     (if frames s = []
      then (None, s\<lparr>title := T_plain, status_title := ''Status: No audio recorded''\<rparr>)
      else
        (case NamedTemporaryFile s of
           Inl e \<Rightarrow> (Some e, s)
         | Inr (temp_filename, s1) \<Rightarrow>
             (case wave_write temp_filename s1 of
                (Some e, s2) \<Rightarrow> (Some e, s2)
              | (None, s2) \<Rightarrow>
                  (case transcribe_try temp_filename s2 of
                     (r, s3) \<Rightarrow> (r, os_unlink temp_filename s3)))))"

definition process_recording :: "app \<Rightarrow> app" where
  "process_recording s =
     (case transcribe_audio s of
        (None, s1) \<Rightarrow> s1\<lparr>title := T_plain\<rparr>
      | (Some e, s1) \<Rightarrow>
          s1\<lparr>status_title := ''Status: Error during transcription'', title := T_plain\<rparr>)"

subsection \<open>Shutdown\<close>

text \<open>The statements of \<open>handle_shutdown\<close> after its \<open>if\<close>.\<close>

definition shutdown_tail :: "app \<Rightarrow> app" where
  "shutdown_tail s =
     s\<lparr>audio_live := False, quit := True, trace := trace s @ [Terminate, Quit]\<rparr>"

definition handle_shutdown :: "app \<Rightarrow> app" where
  "handle_shutdown s =
     (if recording s then stop_recording MainThread ShutdownTail s else shutdown_tail s)"

subsection \<open>The return of a \<open>join\<close>\<close>

definition after_stop :: "cont \<Rightarrow> app \<Rightarrow> app" where
  "after_stop k s =
     (case k of
        Ret \<Rightarrow> s
      | ReleaseTail key \<Rightarrow> release_tail key s
      | ShutdownTail \<Rightarrow> shutdown_tail s)"

text \<open>Thread \<open>t\<close> goes on when the worker it waits for has ended: the \<open>join\<close> returns,
  \<open>stop_recording\<close> runs to its end, and so does the handler that called it.\<close>

definition resume :: "tid \<Rightarrow> app \<Rightarrow> app" where
  "resume t s =
     (case waiting s t of
        None \<Rightarrow> s
      | Some (Join tg k) \<Rightarrow>
          if joined tg s
          then after_stop k (stop_recording_return (s\<lparr>waiting := (waiting s)(t := None)\<rparr>))
          else s)"

subsection \<open>Events\<close>

text \<open>
  The controller's state as the specification names it, read off the object: Recording
  while \<open>self.recording\<close> is set; otherwise Transcribing while a transcription worker is
  running or a handler is still inside \<open>stop_recording\<close>; otherwise Idle.
\<close>

datatype phase = Idle | Recording | Transcribing

definition phase :: "app \<Rightarrow> phase" where
  "phase s =
     (if recording s then Recording
      else if 0 < workers s then Transcribing
      else (case waiting s Listener of
              Some _ \<Rightarrow> Transcribing
            | None \<Rightarrow> (case waiting s MainThread of Some _ \<Rightarrow> Transcribing | None \<Rightarrow> Idle)))"

datatype event = Press key | Release key | MenuStart | MenuStop | Signal
  | LoadBegin | Loaded "exn + engine" | Capture nat | Worker | Resume tid

text \<open>A handler runs when its thread is not inside a \<open>join\<close>. An event that has nothing
  to act on (a loader step out of turn, a worker that does not exist, a thread that does
  not wait or whose worker still runs) changes nothing.\<close>

definition free :: "tid \<Rightarrow> app \<Rightarrow> bool" where
  "free t s = (case waiting s t of None \<Rightarrow> True | Some _ \<Rightarrow> False)"

definition step :: "event \<Rightarrow> app \<Rightarrow> app" where
  "step e s =
     (case e of
        Press k \<Rightarrow> if free Listener s then on_press k s else s
      | Release k \<Rightarrow> if free Listener s then on_release k s else s
      | MenuStart \<Rightarrow> if free MainThread s then start_recording_menu s else s
      | MenuStop \<Rightarrow> if free MainThread s then stop_recording_menu s else s
      | Signal \<Rightarrow> if free MainThread s then handle_shutdown s else s
      | LoadBegin \<Rightarrow> (case loader s of LoadStart \<Rightarrow> load_model_start s | _ \<Rightarrow> s)
      | Loaded outcome \<Rightarrow> (case loader s of LoadTry \<Rightarrow> load_model_try outcome s | _ \<Rightarrow> s)
      | Capture i \<Rightarrow> record_audio_step i s
      | Worker \<Rightarrow> if 0 < workers s then (process_recording s)\<lparr>workers := workers s - 1\<rparr> else s
      | Resume t \<Rightarrow> resume t s)"

fun run :: "event list \<Rightarrow> app \<Rightarrow> app" where
  "run [] s = s"
| "run (e # es) s = run es (step e s)"

text \<open>The effects that are calls of the engine, and the events that cannot start a
  recording.\<close>

definition is_engine_call :: "effect \<Rightarrow> bool" where
  "is_engine_call x = (case x of EngineCall _ _ \<Rightarrow> True | _ \<Rightarrow> False)"

definition engine_calls :: "effect list \<Rightarrow> effect list" where
  "engine_calls tr = filter is_engine_call tr"


subsection \<open>Sample surroundings and states\<close>

definition ex_mic :: "nat \<Rightarrow> bytes" where
  "ex_mic n = (if n = 0 then ''aa'' else ''bb'')"

definition ex_engine :: engine where
  "ex_engine f = Inr [''hello'', '' world'']"

definition ex_init :: app where
  "ex_init = init True True ex_mic [''x1'', ''x2'']"

definition ex_nodevice :: app where
  "ex_nodevice = init False True ex_mic [''x1'', ''x2'']"

definition fn_key :: key where
  "fn_key = KeyCode (Some 63)"

text \<open>The model is loaded; a recording is started with the trigger key; its worker has
  opened the stream and passed the loop test; it has appended its first chunk.\<close>

definition ex_loaded :: app where
  "ex_loaded = load_model (Inr ex_engine) ex_init"

definition ex_recording :: app where
  "ex_recording = start_recording (ex_loaded\<lparr>is_recording_with_key63 := True\<rparr>)"

definition ex_reading :: app where
  "ex_reading = record_audio_step 0 (record_audio_step 0 ex_recording)"

definition ex_captured :: app where
  "ex_captured = record_audio_step 0 ex_reading"

text \<open>The trigger key was released while the model was loading, and the model has
  loaded since.\<close>

definition ex_armed_idle :: app where
  "ex_armed_idle = ex_loaded\<lparr>is_recording_with_key63 := True\<rparr>"

definition ex_nodevice_loaded :: app where
  "ex_nodevice_loaded = load_model (Inr ex_engine) ex_nodevice"

text \<open>The disk is full when the transcription worker runs on one captured chunk.\<close>

definition ex_diskfull :: app where
  "ex_diskfull = ex_captured\<lparr>disk_ok := False\<rparr>"

text \<open>A session that stopped with no frame, and the same with the transcription worker
  started by the stop still to run.\<close>

definition ex_session_empty :: "event list" where
  "ex_session_empty =
     [LoadBegin, Loaded (Inr ex_engine), Release fn_key, Release fn_key,
      Capture 0, Capture 0, Resume Listener]"

text \<open>A session with one captured chunk, stopped with the trigger key while the worker was
  at the loop test.\<close>

definition ex_session_one :: "event list" where
  "ex_session_one =
     [LoadBegin, Loaded (Inr ex_engine), Release fn_key, Capture 0, Capture 0, Capture 0,
      Release fn_key, Capture 0, Resume Listener]"

section \<open>Properties\<close>

lemmas handler_defs = step_def free_def on_press_def on_release_def release_tail_def
  start_recording_menu_def stop_recording_menu_def start_recording_def stop_recording_def
  stop_recording_return_def after_stop_def resume_def joined_def ended_def cap_finished_def
  load_model_def load_model_start_def load_model_try_def handle_shutdown_def shutdown_tail_def
  record_audio_step_def in_special_list_def trigger_key_def Let_def

lemmas worker_defs = process_recording_def transcribe_audio_def NamedTemporaryFile_def
  wave_write_def transcribe_try_def model_transcribe_def os_unlink_def insert_text_def
  pbcopy_def kb_press_def kb_release_def

lemmas ex_defs = ex_init_def ex_nodevice_def init_def fn_key_def ex_mic_def ex_engine_def
  ex_loaded_def ex_recording_def ex_reading_def ex_captured_def ex_armed_idle_def
  ex_nodevice_loaded_def ex_diskfull_def ex_session_empty_def ex_session_one_def

subsection \<open>Single steps of a capture worker\<close>

lemma step_recording [simp]: "recording (record_audio_step i s) = recording s"
  by (simp add: record_audio_step_def split: cap_pc.splits)

lemma step_workers [simp]: "workers (record_audio_step i s) = workers s"
  by (simp add: record_audio_step_def split: cap_pc.splits)

lemma step_waiting [simp]: "waiting (record_audio_step i s) = waiting s"
  by (simp add: record_audio_step_def split: cap_pc.splits)

lemma step_armed [simp]:
  "is_recording_with_key63 (record_audio_step i s) = is_recording_with_key63 s"
  by (simp add: record_audio_step_def split: cap_pc.splits)

lemma step_length [simp]: "length (capture (record_audio_step i s)) = length (capture s)"
  by (simp add: record_audio_step_def split: cap_pc.splits)







lemma ends_within_three:
  assumes "\<not> recording s" "i < length (capture s)"
  shows "ended i (record_audio_step i (record_audio_step i (record_audio_step i s)))"
proof (cases "capture s ! i")
  case CapStart
  with assms show ?thesis by (simp add: record_audio_step_def ended_def cap_finished_def)
next
  case CapLoop
  with assms show ?thesis by (simp add: record_audio_step_def ended_def cap_finished_def)
next
  case CapRead
  with assms show ?thesis by (simp add: record_audio_step_def ended_def cap_finished_def)
next
  case CapDone
  with assms show ?thesis by (simp add: record_audio_step_def ended_def cap_finished_def)
next
  case CapFailed
  with assms show ?thesis by (simp add: record_audio_step_def ended_def cap_finished_def)
qed

lemma three_steps_frames:
  assumes "\<not> recording s"
  shows "frames (record_audio_step i (record_audio_step i (record_audio_step i s))) = frames s \<or>
         frames (record_audio_step i (record_audio_step i (record_audio_step i s)))
           = frames s @ [mic s (mic_pos s)]"
proof (cases "i < length (capture s)")
  case False
  then show ?thesis by (simp add: record_audio_step_def)
next
  case True
  with assms show ?thesis
    by (cases "capture s ! i") (simp_all add: record_audio_step_def)
qed

subsection \<open>What the transcription worker leaves alone\<close>

lemma insert_text_frame:
  "frames (insert_text t s) = frames s" "capture (insert_text t s) = capture s"
  "recording (insert_text t s) = recording s" "files (insert_text t s) = files s"
  "workers (insert_text t s) = workers s" "waiting (insert_text t s) = waiting s"
  by (simp_all add: insert_text_def pbcopy_def kb_press_def kb_release_def)

lemma transcribe_audio_frame:
  "frames (snd (transcribe_audio s)) = frames s"
  "capture (snd (transcribe_audio s)) = capture s"
  "recording (snd (transcribe_audio s)) = recording s"
  "workers (snd (transcribe_audio s)) = workers s"
  "waiting (snd (transcribe_audio s)) = waiting s"
  by (simp_all add: transcribe_audio_def NamedTemporaryFile_def wave_write_def
      transcribe_try_def model_transcribe_def os_unlink_def insert_text_frame Let_def
      split: option.splits sum.splits prod.splits)

lemma process_recording_frame:
  "frames (process_recording s) = frames s"
  "capture (process_recording s) = capture s"
  "recording (process_recording s) = recording s"
  "workers (process_recording s) = workers s"
  "waiting (process_recording s) = waiting s"
  using transcribe_audio_frame [of s]
  by (auto simp add: process_recording_def split: option.splits prod.splits)


subsection \<open>A capture worker that has ended stays ended\<close>





lemma stop_capture [simp]: "capture (stop_recording t k s) = capture s"
  by (simp add: stop_recording_def)

lemma return_capture [simp]: "capture (stop_recording_return s) = capture s"
  by (simp add: stop_recording_return_def)

lemma tail_capture [simp]: "capture (shutdown_tail s) = capture s"
  by (simp add: shutdown_tail_def)

lemma release_tail_capture [simp]: "capture (release_tail k s) = capture s"
  by (simp add: release_tail_def)

lemma after_stop_capture [simp]: "capture (after_stop k s) = capture s"
  by (cases k) (simp_all add: after_stop_def)

lemma resume_capture [simp]: "capture (resume t s) = capture s"
proof (cases "waiting s t")
  case None
  then show ?thesis by (simp add: resume_def)
next
  case (Some w)
  then show ?thesis by (cases w) (simp add: resume_def)
qed







subsection \<open>Pasting\<close>

text \<open>
  C10. For every text, \<open>insert_text\<close> overwrites the clipboard with that text and does not
  put the previous contents back: when it returns, the clipboard holds the inserted text.
\<close>

theorem insert_text_overwrites_clipboard:
  "clipboard (insert_text text s) = text"
  by (simp add: insert_text_def pbcopy_def kb_press_def kb_release_def)

subsection \<open>Empty captures\<close>

lemma engine_calls_append [simp]:
  "engine_calls (xs @ ys) = engine_calls xs @ engine_calls ys"
  by (simp add: engine_calls_def)

lemma engine_calls_plain [simp]:
  "engine_calls [SpawnTranscribe] = []" "engine_calls [Terminate, Quit] = []"
  "engine_calls [SpawnTranscribe, Terminate, Quit] = []"
  by (simp_all add: engine_calls_def is_engine_call_def)







subsection \<open>The frame buffer after a transcription\<close>

text \<open>
  C7, as the claim states it, fails: after a whole session (load, start, one chunk
  captured, stop, transcription finished) the controller is Idle and the frame buffer
  still holds the captured chunk.
\<close>

theorem frames_kept_counterexample:
  "phase (run (ex_session_one @ [Worker]) ex_init) = Idle \<and>
   frames (run (ex_session_one @ [Worker]) ex_init) = [''aa'']"
  by (simp add: handler_defs ex_defs worker_defs phase_def)

text \<open>
  C7, amended. The accumulated frames are not discarded when the transcription completes
  or fails: the transcription worker leaves the frame buffer as it found it. The buffer
  is cleared when the next recording starts.
\<close>

theorem frames_kept_until_next_start:
  "frames (process_recording s) = frames s \<and>
   (model s \<noteq> None \<longrightarrow> frames (start_recording s) = [])"
  by (auto simp add: process_recording_frame start_recording_def)

theorem frames_kept_until_next_start_witness:
  "model ex_captured \<noteq> None \<and> frames ex_captured = [''aa''] \<and>
   frames (process_recording ex_captured) = [''aa''] \<and>
   frames (start_recording ex_captured) = []"
proof -
  have m: "model ex_captured \<noteq> None"
    by (simp add: ex_defs handler_defs)
  have f: "frames ex_captured = [''aa'']"
    by (simp add: ex_defs handler_defs)
  show ?thesis
    using m f frames_kept_until_next_start [of ex_captured] by simp
qed

subsection \<open>Start requests outside Idle\<close>

lemma on_press_recording: "recording s \<Longrightarrow> on_press k s = s"
  by (cases k) (simp_all add: on_press_def)

lemma on_release_recording:
  assumes "recording s"
  shows "on_release k s = s \<or> \<not> recording (on_release k s)"
proof (cases k)
  case (Key sp)
  with assms show ?thesis
    by (simp add: on_release_def release_tail_def stop_recording_def)
next
  case (KeyCode v)
  with assms show ?thesis
    by (simp add: on_release_def release_tail_def stop_recording_def in_special_list_def)
qed

lemma start_recording_loaded:
  assumes "model s \<noteq> None"
  shows "start_recording s =
      s\<lparr>frames := [], recording := True, title := T_recording,
        status_title := ''Status: Recording...'',
        capture := capture s @ [CapStart], trace := trace s @ [SpawnCapture]\<rparr>"
proof -
  from assms obtain eng where "model s = Some eng" by (cases "model s") simp_all
  then show ?thesis by (simp add: start_recording_def)
qed

text \<open>
  C1, as the claim states it, fails for the state Transcribing and for the overlap of
  sessions. In the first session below a transcription worker is running and the frame
  buffer holds a chunk; a further release of the trigger key is not ignored: the
  controller is Recording again, the frame buffer is empty, and the transcription of the
  first session is still to run. In the second run the menu's start entry is used while
  the listener is still inside the \<open>join\<close> of a stop: two capture workers are running.
\<close>

theorem start_while_transcribing_counterexample:
  "phase (run ex_session_one ex_init) = Transcribing \<and>
   frames (run ex_session_one ex_init) = [''aa''] \<and>
   phase (run (ex_session_one @ [Release fn_key]) ex_init) = Recording \<and>
   frames (run (ex_session_one @ [Release fn_key]) ex_init) = [] \<and>
   workers (run (ex_session_one @ [Release fn_key]) ex_init) = 1 \<and>
   capture (run [LoadBegin, Loaded (Inr ex_engine), Release fn_key, Capture 0, Capture 0,
                 Release fn_key, MenuStart] ex_init) = [CapRead, CapStart]"
  by (simp add: handler_defs ex_defs phase_def)

text \<open>
  C1, amended. For every trigger event that requests a start while \<open>self.recording\<close> is
  set (state Recording), the event is ignored: a key press and the menu's start entry
  leave the whole state, frame buffer included, unchanged, and a key release either leaves
  it unchanged or clears the flag (it never starts a recording). Whenever
  \<open>self.recording\<close> is clear and the model is loaded, in Transcribing as in Idle, a start
  request (the menu's start entry, the press of an alternate key, the release of the
  trigger key with its flag clear) is not ignored: it starts a recording with an empty
  frame buffer and a new capture worker, and leaves running transcriptions and pending
  stops as they are.
\<close>

theorem start_ignored_while_recording:
  "(recording s \<longrightarrow>
      on_press k s = s \<and> start_recording_menu s = s \<and>
      (on_release k s = s \<or> \<not> recording (on_release k s))) \<and>
   (\<not> recording s \<and> model s \<noteq> None \<longrightarrow>
      start_recording_menu s = start_recording s \<and>
      (in_special_list k \<longrightarrow> on_press k s = start_recording s) \<and>
      on_press (KeyCode (Some 49)) s = start_recording s \<and>
      on_press (KeyCode (Some 55)) s = start_recording s \<and>
      (\<not> is_recording_with_key63 s \<longrightarrow>
         on_release fn_key s = start_recording (s\<lparr>is_recording_with_key63 := True\<rparr>)) \<and>
      phase (start_recording s) = Recording \<and> frames (start_recording s) = [] \<and>
      capture (start_recording s) = capture s @ [CapStart] \<and>
      workers (start_recording s) = workers s \<and> waiting (start_recording s) = waiting s)"
proof -
  have one: "on_press k s = s \<and> start_recording_menu s = s \<and>
      (on_release k s = s \<or> \<not> recording (on_release k s))" if "recording s"
    using that on_press_recording [of s k] on_release_recording [of s k]
    by (simp add: start_recording_menu_def)
  have two: "start_recording_menu s = start_recording s \<and>
      (in_special_list k \<longrightarrow> on_press k s = start_recording s) \<and>
      on_press (KeyCode (Some 49)) s = start_recording s \<and>
      on_press (KeyCode (Some 55)) s = start_recording s \<and>
      (\<not> is_recording_with_key63 s \<longrightarrow>
         on_release fn_key s = start_recording (s\<lparr>is_recording_with_key63 := True\<rparr>)) \<and>
      phase (start_recording s) = Recording \<and> frames (start_recording s) = [] \<and>
      capture (start_recording s) = capture s @ [CapStart] \<and>
      workers (start_recording s) = workers s \<and> waiting (start_recording s) = waiting s"
    if h: "\<not> recording s \<and> model s \<noteq> None"
  proof -
    from h have nr: "\<not> recording s" and m: "model s \<noteq> None" by simp_all
    have m': "model (s\<lparr>is_recording_with_key63 := True\<rparr>) \<noteq> None" using m by simp
    note st = start_recording_loaded [OF m]
    note st' = start_recording_loaded [OF m']
    have a: "start_recording_menu s = start_recording s"
      using nr by (simp add: start_recording_menu_def)
    have b: "in_special_list k \<longrightarrow> on_press k s = start_recording s"
      using nr by (cases k) (simp_all add: on_press_def in_special_list_def)
    have c: "on_press (KeyCode (Some 49)) s = start_recording s"
      using nr by (simp add: on_press_def in_special_list_def trigger_key_def st)
    have d: "on_press (KeyCode (Some 55)) s = start_recording s"
      using nr by (simp add: on_press_def in_special_list_def trigger_key_def st)
    have e: "\<not> is_recording_with_key63 s \<longrightarrow>
         on_release fn_key s = start_recording (s\<lparr>is_recording_with_key63 := True\<rparr>)"
      using nr
      by (simp add: on_release_def fn_key_def trigger_key_def release_tail_def
          in_special_list_def)
    have f: "phase (start_recording s) = Recording \<and> frames (start_recording s) = [] \<and>
      capture (start_recording s) = capture s @ [CapStart] \<and>
      workers (start_recording s) = workers s \<and> waiting (start_recording s) = waiting s"
      unfolding st by (simp add: phase_def)
    from a b c d e f show ?thesis by simp
  qed
  from one two show ?thesis by blast
qed

text \<open>
  The theorem at a Recording state and at the Transcribing state of the session above,
  with the space key.
\<close>

theorem start_ignored_while_recording_witness:
  "recording ex_recording \<and>
   on_press (Key Key_space) ex_recording = ex_recording \<and>
   start_recording_menu ex_recording = ex_recording \<and>
   (on_release (Key Key_space) ex_recording = ex_recording \<or>
    \<not> recording (on_release (Key Key_space) ex_recording)) \<and>
   \<not> recording (run ex_session_one ex_init) \<and> model (run ex_session_one ex_init) \<noteq> None \<and>
   phase (run ex_session_one ex_init) = Transcribing \<and>
   in_special_list (Key Key_space) \<and>
   on_press (Key Key_space) (run ex_session_one ex_init)
     = start_recording (run ex_session_one ex_init) \<and>
   phase (start_recording (run ex_session_one ex_init)) = Recording \<and>
   frames (start_recording (run ex_session_one ex_init)) = []"
proof -
  have r: "recording ex_recording" by (simp add: handler_defs ex_defs)
  have t: "\<not> recording (run ex_session_one ex_init) \<and>
      model (run ex_session_one ex_init) \<noteq> None \<and>
      phase (run ex_session_one ex_init) = Transcribing"
    by (simp add: handler_defs ex_defs phase_def)
  have k: "in_special_list (Key Key_space)" by (simp add: in_special_list_def)
  show ?thesis
    using r t k start_ignored_while_recording [of ex_recording "Key Key_space"]
      start_ignored_while_recording [of "run ex_session_one ex_init" "Key Key_space"]
    by simp
qed

subsection \<open>The toggle of the trigger key\<close>

text \<open>
  With the flag clear and the model loaded, two releases of the trigger key make one
  cycle: the first starts a recording, the second clears \<open>self.recording\<close> and waits for
  the worker, and when the worker has ended the transcription is started.
\<close>

lemma toggle_cycle_when_flag_clear:
  assumes "\<not> recording s" "\<not> is_recording_with_key63 s" "model s \<noteq> None"
  shows "phase (on_release fn_key s) = Recording \<and>
     phase (on_release fn_key (on_release fn_key s)) = Transcribing \<and>
     waiting (on_release fn_key (on_release fn_key s)) Listener
       = Some (Join (Some (length (capture s))) (ReleaseTail fn_key)) \<and>
     phase (resume Listener (record_audio_step (length (capture s))
        (record_audio_step (length (capture s)) (record_audio_step (length (capture s))
          (on_release fn_key (on_release fn_key s)))))) = Transcribing \<and>
     workers (resume Listener (record_audio_step (length (capture s))
        (record_audio_step (length (capture s)) (record_audio_step (length (capture s))
          (on_release fn_key (on_release fn_key s)))))) = Suc (workers s) \<and>
     waiting (resume Listener (record_audio_step (length (capture s))
        (record_audio_step (length (capture s)) (record_audio_step (length (capture s))
          (on_release fn_key (on_release fn_key s)))))) Listener = None \<and>
     \<not> is_recording_with_key63 (resume Listener (record_audio_step (length (capture s))
        (record_audio_step (length (capture s)) (record_audio_step (length (capture s))
          (on_release fn_key (on_release fn_key s))))))"
proof -
  let ?n = "length (capture s)"
  let ?s1 = "s\<lparr>is_recording_with_key63 := True, frames := [], recording := True,
      title := T_recording, status_title := ''Status: Recording...'',
      capture := capture s @ [CapStart], trace := trace s @ [SpawnCapture]\<rparr>"
  let ?s2 = "?s1\<lparr>is_recording_with_key63 := False, recording := False,
      waiting := (waiting s)(Listener \<mapsto> Join (Some ?n) (ReleaseTail fn_key))\<rparr>"
  let ?j = "record_audio_step ?n (record_audio_step ?n (record_audio_step ?n ?s2))"
  have m: "model (s\<lparr>is_recording_with_key63 := True\<rparr>) \<noteq> None" using assms(3) by simp
  have a: "on_release fn_key s = ?s1"
    using assms(1,2) start_recording_loaded [OF m]
    by (simp add: on_release_def fn_key_def trigger_key_def release_tail_def
        in_special_list_def)
  have b: "on_release fn_key ?s1 = ?s2"
    by (simp add: on_release_def fn_key_def trigger_key_def stop_recording_def)
  have p1: "phase ?s1 = Recording" by (simp add: phase_def)
  have p2: "phase ?s2 = Transcribing" by (simp add: phase_def)
  have w2: "waiting ?s2 Listener = Some (Join (Some ?n) (ReleaseTail fn_key))" by simp
  have nr: "\<not> recording ?s2" by simp
  have len: "?n < length (capture ?s2)" by simp
  have en: "ended ?n ?j" using ends_within_three [OF nr len] .
  have wj: "waiting ?j Listener = Some (Join (Some ?n) (ReleaseTail fn_key))" by simp
  have res: "resume Listener ?j =
      ?j\<lparr>waiting := (waiting ?j)(Listener := None), title := T_transcribing,
         status_title := ''Status: Transcribing...'', workers := Suc (workers ?j),
         trace := trace ?j @ [SpawnTranscribe]\<rparr>"
    using wj en
    by (simp add: resume_def joined_def after_stop_def stop_recording_return_def
        release_tail_def fn_key_def in_special_list_def)
  have c1: "phase (resume Listener ?j) = Transcribing" unfolding res by (simp add: phase_def)
  have c2: "workers (resume Listener ?j) = Suc (workers s)" unfolding res by simp
  have c3: "waiting (resume Listener ?j) Listener = None" unfolding res by simp
  have c4: "\<not> is_recording_with_key63 (resume Listener ?j)" unfolding res by simp
  show ?thesis
    unfolding a b by (intro conjI p1 p2 w2 c1 c2 c3 c4)
qed

text \<open>
  C2. The claim asks that the first release of the trigger key while the controller is
  Idle with the model loaded starts a recording. The code does not do so after a release
  that came while the model was still loading: that release set
  \<open>is_recording_with_key63\<close> although no recording started, and a release in the state so
  reached (Idle, model loaded) changes nothing.
\<close>

theorem primary_key_dead_after_early_release:
  "run [Release fn_key, LoadBegin, Loaded (Inr ex_engine)] ex_init = ex_armed_idle \<and>
   phase ex_armed_idle = Idle \<and> model ex_armed_idle = Some ex_engine \<and>
   on_release fn_key ex_armed_idle = ex_armed_idle \<and>
   phase (run [Release fn_key, LoadBegin, Loaded (Inr ex_engine), Release fn_key] ex_init) = Idle"
  by (simp add: handler_defs ex_defs phase_def)

text \<open>
  C3. The claim asks that a start requested before the model is loaded modifies no state
  of the controller, the toggle's flag included. In the code \<open>on_release\<close> sets
  \<open>is_recording_with_key63\<close> before it calls \<open>start_recording\<close>, which then rejects the
  request: the state stays Idle and the status becomes \<open>Waiting for model to load\<close>, but
  the flag is now set.
\<close>

theorem rejected_start_sets_armed_flag:
  "model ex_init = None \<and> phase ex_init = Idle \<and> \<not> is_recording_with_key63 ex_init \<and>
   on_release fn_key ex_init =
     ex_init\<lparr>is_recording_with_key63 := True,
              status_title := ''Status: Waiting for model to load''\<rparr>"
  by (simp add: handler_defs ex_defs phase_def)

subsection \<open>A microphone that cannot be opened\<close>

text \<open>
  C4, as the claim states it, fails: with a device that cannot be opened, after the start
  and the worker's attempt to open the stream, the controller is Recording and the status
  is \<open>Recording...\<close>; the worker is dead.
\<close>

theorem device_failure_counterexample:
  "phase (run [LoadBegin, Loaded (Inr ex_engine), Release fn_key, Capture 0] ex_nodevice)
     = Recording \<and>
   status_title (run [LoadBegin, Loaded (Inr ex_engine), Release fn_key, Capture 0] ex_nodevice)
     = ''Status: Recording...'' \<and>
   capture (run [LoadBegin, Loaded (Inr ex_engine), Release fn_key, Capture 0] ex_nodevice)
     = [CapFailed]"
  by (simp add: handler_defs ex_defs phase_def)

text \<open>
  C4, amended. If the microphone device cannot be opened when a recording start is
  attempted, the failure happens in the capture worker, after \<open>start_recording\<close> has set
  the controller to Recording with the status \<open>Recording...\<close>: the worker ends without
  opening a stream and without appending a frame, then and ever after, and the
  controller stays Recording with that status.
\<close>

theorem device_failure_unnoticed:
  assumes "model s \<noteq> None" "\<not> (audio_live s \<and> device_ok s)"
  shows "phase (record_audio_step (length (capture s)) (start_recording s)) = Recording \<and>
     status_title (record_audio_step (length (capture s)) (start_recording s))
       = ''Status: Recording...'' \<and>
     frames (record_audio_step (length (capture s)) (start_recording s)) = [] \<and>
     capture (record_audio_step (length (capture s)) (start_recording s))
       = capture s @ [CapFailed] \<and>
     trace (record_audio_step (length (capture s)) (start_recording s))
       = trace s @ [SpawnCapture] \<and>
     record_audio_step (length (capture s))
         (record_audio_step (length (capture s)) (start_recording s))
       = record_audio_step (length (capture s)) (start_recording s)"
proof -
  from assms(1) obtain eng where m: "model s = Some eng"
    by (cases "model s") simp_all
  have st: "start_recording s =
      s\<lparr>frames := [], recording := True, title := T_recording,
        status_title := ''Status: Recording...'',
        capture := capture s @ [CapStart], trace := trace s @ [SpawnCapture]\<rparr>"
    using m by (simp add: start_recording_def)
  show ?thesis
    unfolding st using assms(2) by (simp add: record_audio_step_def phase_def)
qed

theorem device_failure_unnoticed_witness:
  "model ex_nodevice_loaded \<noteq> None \<and>
   \<not> (audio_live ex_nodevice_loaded \<and> device_ok ex_nodevice_loaded) \<and>
   phase (record_audio_step 0 (start_recording ex_nodevice_loaded)) = Recording \<and>
   status_title (record_audio_step 0 (start_recording ex_nodevice_loaded))
     = ''Status: Recording...'' \<and>
   frames (record_audio_step 0 (start_recording ex_nodevice_loaded)) = [] \<and>
   capture (record_audio_step 0 (start_recording ex_nodevice_loaded)) = [CapFailed]"
proof -
  have m: "model ex_nodevice_loaded \<noteq> None" by (simp add: ex_defs handler_defs)
  have d: "\<not> (audio_live ex_nodevice_loaded \<and> device_ok ex_nodevice_loaded)"
    by (simp add: ex_defs handler_defs)
  have c: "capture ex_nodevice_loaded = []" by (simp add: ex_defs handler_defs)
  show ?thesis
    using m d c device_failure_unnoticed [OF m d] by simp
qed

subsection \<open>Shutdown\<close>





subsection \<open>Frames after a stop\<close>




subsection \<open>The temporary file\<close>

lemma mkstemp_fresh: "mkstemp fs cs = Some (n, rest) \<Longrightarrow> fs n = None"
  by (induction cs) (auto simp: Let_def split: option.splits)

lemma NamedTemporaryFile_fresh:
  assumes "NamedTemporaryFile s = Inr (n, s1)"
  shows "files s n = None \<and>
     (\<exists>rest. s1 = s\<lparr>files := (files s)(n \<mapsto> RawFile []), tmp_names := rest,
                     trace := trace s @ [TempCreate n]\<rparr>)"
proof (cases "mkstemp (files s) (tmp_names s)")
  case None
  with assms show ?thesis by (simp add: NamedTemporaryFile_def)
next
  case (Some p)
  obtain n' rest where p: "p = (n', rest)" by (cases p)
  with Some assms have n: "n' = n"
    by (simp add: NamedTemporaryFile_def)
  from p n Some assms have s1: "s1 = s\<lparr>files := (files s)(n \<mapsto> RawFile []),
      tmp_names := rest, trace := trace s @ [TempCreate n]\<rparr>"
    by (simp add: NamedTemporaryFile_def)
  from Some p n have fresh: "files s n = None" using mkstemp_fresh by simp
  have "\<exists>rest. s1 = s\<lparr>files := (files s)(n \<mapsto> RawFile []), tmp_names := rest,
                     trace := trace s @ [TempCreate n]\<rparr>"
    by (rule exI [of _ rest]) (rule s1)
  with fresh show ?thesis by (rule conjI)
qed

text \<open>
  When the temporary file is created and the container is written, the name was not in
  use, the file exists from its creation on, the engine is invoked on the name when the
  file holds the complete wave container of all frames, and the file is deleted after the
  call whether the engine returns segments or raises: the file system is then as it was
  before.
\<close>

lemma temp_file_deleted_after_engine:
  assumes "frames s \<noteq> []" "NamedTemporaryFile s = Inr (n, s1)" "disk_ok s"
  shows "files s n = None \<and> files s1 n = Some (RawFile []) \<and>
     files (snd (transcribe_audio s)) = files s \<and>
     (case model s of
        None \<Rightarrow>
          fst (transcribe_audio s) = Some AttributeError \<and>
          trace (snd (transcribe_audio s)) = trace s @ [TempCreate n, WavWrite n, Unlink n]
      | Some eng \<Rightarrow>
          (case eng (WavFile channels sample_size rate (concat (frames s))) of
             Inl e \<Rightarrow>
               fst (transcribe_audio s) = Some e \<and>
               trace (snd (transcribe_audio s)) =
                 trace s @ [TempCreate n, WavWrite n,
                   EngineCall n (Some (WavFile channels sample_size rate (concat (frames s)))),
                   Unlink n]
           | Inr segments \<Rightarrow>
               fst (transcribe_audio s) = None \<and>
               trace (snd (transcribe_audio s)) =
                 trace s @ [TempCreate n, WavWrite n,
                   EngineCall n (Some (WavFile channels sample_size rate (concat (frames s))))]
                 @ (if concat segments = [] then [] else [Pbcopy (concat segments)])
                 @ [Unlink n]))"
proof -
  have fresh: "files s n = None"
    using NamedTemporaryFile_fresh [OF assms(2)] by (rule conjunct1)
  have "\<exists>rest. s1 = s\<lparr>files := (files s)(n \<mapsto> RawFile []), tmp_names := rest,
                  trace := trace s @ [TempCreate n]\<rparr>"
    using NamedTemporaryFile_fresh [OF assms(2)] by (rule conjunct2)
  then obtain rest where
    s1: "s1 = s\<lparr>files := (files s)(n \<mapsto> RawFile []), tmp_names := rest,
                  trace := trace s @ [TempCreate n]\<rparr>"
    by (rule exE)
  have restored: "(files s)(n := None) = files s" using fresh by (rule fun_upd_idem)
  show ?thesis
  proof (cases "model s")
    case None
    with assms fresh restored show ?thesis
      by (simp add: transcribe_audio_def s1 wave_write_def transcribe_try_def
          model_transcribe_def os_unlink_def)
  next
    case (Some eng)
    show ?thesis
    proof (cases "eng (WavFile channels sample_size rate (concat (frames s)))")
      case (Inl e)
      with Some assms fresh restored show ?thesis
        by (simp add: transcribe_audio_def s1 wave_write_def transcribe_try_def
            model_transcribe_def os_unlink_def)
    next
      case (Inr segments)
      with Some assms fresh restored show ?thesis
        by (simp add: transcribe_audio_def s1 wave_write_def transcribe_try_def
            model_transcribe_def os_unlink_def insert_text_def pbcopy_def kb_press_def
            kb_release_def Let_def)
    qed
  qed
qed

text \<open>
  C9. The claim asks that the temporary file is deleted unconditionally. The code creates
  and writes the file before the \<open>try\<close> statement whose \<open>finally\<close> clause deletes it,
  so when writing the container fails the file that was created is left behind: below,
  the disk is full, \<open>transcribe_audio\<close> raises, no \<open>Unlink\<close> takes place and the file
  still exists when the worker has finished.
\<close>

theorem temp_file_left_when_write_fails:
  "frames ex_diskfull = [''aa''] \<and>
   files ex_diskfull ''/tmp/tmpx1.wav'' = None \<and>
   fst (transcribe_audio ex_diskfull) = Some OSError \<and>
   files (snd (transcribe_audio ex_diskfull)) ''/tmp/tmpx1.wav'' = Some (RawFile []) \<and>
   trace (snd (transcribe_audio ex_diskfull))
     = trace ex_diskfull @ [TempCreate ''/tmp/tmpx1.wav''] \<and>
   files (process_recording ex_diskfull) ''/tmp/tmpx1.wav'' = Some (RawFile []) \<and>
   status_title (process_recording ex_diskfull) = ''Status: Error during transcription''"
  by (simp add: handler_defs ex_defs worker_defs)

end
